theory Spec2Isabelle
  imports Main "HOL-Library.Word" "HOL-Library.Multiset"
begin

section \<open>Text values\<close>

text \<open>
  A JavaScript string is a sequence of UTF-16 code units, and \<open>s.length\<close> counts code
  units. The fixed messages returned by the validators are literals and are kept as
  HOL strings.
\<close>

type_synonym jsstring = "16 word list"

definition ascii :: "string \<Rightarrow> jsstring" where
  "ascii s = map (\<lambda>c. of_nat (of_char c)) s"

text \<open>
  \<open>String.prototype.trim\<close> removes WhiteSpace and LineTerminator code points from both
  ends (ECMAScript, sections 12.2 and 12.3). All of them lie in the basic plane, so
  they are single code units.
\<close>

definition isWhiteSpace :: "16 word \<Rightarrow> bool" where
  "isWhiteSpace c =
     (c = 0x0009 \<or> c = 0x000A \<or> c = 0x000B \<or> c = 0x000C \<or> c = 0x000D \<or>
      c = 0x0020 \<or> c = 0x00A0 \<or> c = 0x1680 \<or> (0x2000 \<le> c \<and> c \<le> 0x200A) \<or>
      c = 0x2028 \<or> c = 0x2029 \<or> c = 0x202F \<or> c = 0x205F \<or> c = 0x3000 \<or>
      c = 0xFEFF)"

definition trim :: "jsstring \<Rightarrow> jsstring" where
  "trim s = rev (dropWhile isWhiteSpace (rev (dropWhile isWhiteSpace s)))"

text \<open>
  Truthiness of a value of type \<open>string | undefined | null\<close>: absent values and the
  empty string are falsy.
\<close>

definition truthy :: "'a list option \<Rightarrow> bool" where
  "truthy v = (case v of None \<Rightarrow> False | Some s \<Rightarrow> s \<noteq> [])"

section \<open>Data model (types.ts)\<close>

text \<open>
  \<open>createdAt\<close> and \<open>updatedAt\<close> hold \<open>new Date().toISOString()\<close>. The ISO text is read
  back only through \<open>new Date(text).getTime()\<close>, which returns the millisecond instant
  it was printed from, so a timestamp is modelled by that instant (milliseconds since
  the epoch).
\<close>

record Note =
  id' :: jsstring
  userId :: jsstring
  title :: jsstring
  body :: jsstring
  createdAt :: int
  updatedAt :: "int option"

text \<open>
  The request body is untyped JSON, and \<open>validateTitle\<close> accepts \<open>undefined\<close>, so the
  title of a \<open>CreateNoteDto\<close> may be missing at run time.
\<close>

record CreateNoteDto =
  c_title :: "jsstring option"
  c_body :: "jsstring option"

record UpdateNoteDto =
  u_title :: "jsstring option"
  u_body :: "jsstring option"

section \<open>In-memory storage (storage.ts)\<close>

text \<open>
  A JavaScript \<open>Map\<close> iterates in insertion order; \<open>set\<close> on a present key replaces
  the value in place and on a new key appends; \<open>delete\<close> reports whether the key was
  present.
\<close>

fun map_set :: "'k \<Rightarrow> 'v \<Rightarrow> ('k \<times> 'v) list \<Rightarrow> ('k \<times> 'v) list" where
  "map_set k v [] = [(k, v)]"
| "map_set k v (p # m) = (if fst p = k then (k, v) # m else p # map_set k v m)"

fun map_get :: "('k \<times> 'v) list \<Rightarrow> 'k \<Rightarrow> 'v option" where
  "map_get [] k = None"
| "map_get (p # m) k = (if fst p = k then Some (snd p) else map_get m k)"

definition map_delete :: "'k \<Rightarrow> ('k \<times> 'v) list \<Rightarrow> bool \<times> ('k \<times> 'v) list" where
  "map_delete k m = (map_get m k \<noteq> None, filter (\<lambda>p. fst p \<noteq> k) m)"

text \<open>
  \<open>Array.prototype.sort\<close> with a comparator is a stable sort: an element goes in front
  of the first element it does not compare greater than.
\<close>

fun sort_insert :: "('a \<Rightarrow> 'a \<Rightarrow> int) \<Rightarrow> 'a \<Rightarrow> 'a list \<Rightarrow> 'a list" where
  "sort_insert cmp x [] = [x]"
| "sort_insert cmp x (y # ys) =
     (if cmp x y \<le> 0 then x # y # ys else y # sort_insert cmp x ys)"

definition array_sort :: "('a \<Rightarrow> 'a \<Rightarrow> int) \<Rightarrow> 'a list \<Rightarrow> 'a list" where
  "array_sort cmp xs = foldr (sort_insert cmp) xs []"

record Storage =
  notes' :: "(jsstring \<times> Note) list"
  tokens' :: "(jsstring \<times> jsstring) list"

definition storage_saveNote :: "Storage \<Rightarrow> Note \<Rightarrow> Storage" where
  "storage_saveNote st note = st\<lparr>notes' := map_set (id' note) note (notes' st)\<rparr>"

definition storage_getNote :: "Storage \<Rightarrow> jsstring \<Rightarrow> Note option" where
  "storage_getNote st i = map_get (notes' st) i"

definition storage_getNotesByUser :: "Storage \<Rightarrow> jsstring \<Rightarrow> Note list" where
  "storage_getNotesByUser st u =
     (let userNotes = map snd (filter (\<lambda>p. userId (snd p) = u) (notes' st))
      in array_sort (\<lambda>a b. createdAt b - createdAt a) userNotes)"

definition storage_deleteNote :: "Storage \<Rightarrow> jsstring \<Rightarrow> bool \<times> Storage" where
  "storage_deleteNote st i =
     (let (r, m) = map_delete i (notes' st) in (r, st\<lparr>notes' := m\<rparr>))"

definition storage_saveToken :: "Storage \<Rightarrow> jsstring \<Rightarrow> jsstring \<Rightarrow> Storage" where
  "storage_saveToken st token u = st\<lparr>tokens' := map_set token u (tokens' st)\<rparr>"

definition storage_getUserIdByToken :: "Storage \<Rightarrow> jsstring \<Rightarrow> jsstring option" where
  "storage_getUserIdByToken st token = map_get (tokens' st) token"

section \<open>Auth service (authService.ts)\<close>

text \<open>
  \<open>uuidv4()\<close> draws a random identifier; the drawn text is an argument of the model.
\<close>

definition generateToken :: "Storage \<Rightarrow> jsstring \<Rightarrow> jsstring \<Rightarrow> jsstring \<times> Storage" where
  "generateToken st uuid u =
     (let token = ascii ''fake_'' @ uuid
      in (token, storage_saveToken st token u))"

definition validateToken :: "Storage \<Rightarrow> jsstring \<Rightarrow> jsstring option" where
  "validateToken st token =
     (let u = storage_getUserIdByToken st token
      in if truthy u then u else None)"

section \<open>Notes service (notesService.ts)\<close>

definition validateTitle :: "jsstring option \<Rightarrow> string option" where
  "validateTitle t =
     (if \<not> truthy t then Some ''Title is required''
      else case t of
        None \<Rightarrow> Some ''Title is required''
      | Some s \<Rightarrow>
          (let trimmed = trim s
           in if length trimmed = 0 then Some ''Title is required''
              else if length trimmed > 80 then Some ''Title must not exceed 80 characters''
              else None))"

definition validateBody :: "jsstring option \<Rightarrow> string option" where
  "validateBody b =
     (case b of
        None \<Rightarrow> None
      | Some s \<Rightarrow>
          if length s > 500 then Some ''Body must not exceed 500 characters'' else None)"

text \<open>
  Each result object of the service carries exactly one of its optional fields, so it
  is a tagged union. \<open>CreateTypeError\<close> stands for the exception \<open>dto.title.trim()\<close>
  raises on a missing title.
\<close>

datatype CreateResult = CreateOk Note | CreateError string | CreateTypeError

datatype UpdateResult = UpdateOk Note | UpdateError string | UpdateNotFound | UpdateForbidden

datatype DeleteResult = DeleteSuccess | DeleteNotFound | DeleteForbidden

text \<open>
  The clock (\<open>new Date()\<close>) and the random identifier are arguments. The validators
  return either \<open>null\<close> or a non-empty literal, so \<open>if (titleError)\<close> holds exactly
  when a message was returned. Every service operation returns its result together
  with the storage it leaves behind.
\<close>

definition createNote ::
  "Storage \<Rightarrow> jsstring \<Rightarrow> int \<Rightarrow> jsstring \<Rightarrow> CreateNoteDto \<Rightarrow> CreateResult \<times> Storage" where
  "createNote st uuid now u dto =
     (case validateTitle (c_title dto) of
        Some titleError \<Rightarrow> (CreateError titleError, st)
      | None \<Rightarrow>
     (case validateBody (c_body dto) of
        Some bodyError \<Rightarrow> (CreateError bodyError, st)
      | None \<Rightarrow>
     (case c_title dto of
        None \<Rightarrow> (CreateTypeError, st)
      | Some t \<Rightarrow>
          (let note = \<lparr>id' = ascii ''note_'' @ uuid,
                       userId = u,
                       title = trim t,
                       body = (case c_body dto of
                                 None \<Rightarrow> []
                               | Some b \<Rightarrow> if b \<noteq> [] then b else []),
                       createdAt = now,
                       updatedAt = None\<rparr>
           in (CreateOk note, storage_saveNote st note)))))"

definition getUserNotes :: "Storage \<Rightarrow> jsstring \<Rightarrow> Note list \<times> Storage" where
  "getUserNotes st u = (storage_getNotesByUser st u, st)"

definition getNote :: "Storage \<Rightarrow> jsstring \<Rightarrow> Note option \<times> Storage" where
  "getNote st i = (storage_getNote st i, st)"

definition updateNote ::
  "Storage \<Rightarrow> int \<Rightarrow> jsstring \<Rightarrow> jsstring \<Rightarrow> UpdateNoteDto \<Rightarrow> UpdateResult \<times> Storage" where
  "updateNote st now i u dto =
     (case storage_getNote st i of
        None \<Rightarrow> (UpdateNotFound, st)
      | Some note \<Rightarrow>
          if userId note \<noteq> u then (UpdateForbidden, st)
          else if u_title dto = None \<and> u_body dto = None
            then (UpdateError ''No updatable fields provided'', st)
          else
            (case (if u_title dto \<noteq> None then validateTitle (u_title dto) else None) of
               Some titleError \<Rightarrow> (UpdateError titleError, st)
             | None \<Rightarrow>
            (case (if u_body dto \<noteq> None then validateBody (u_body dto) else None) of
               Some bodyError \<Rightarrow> (UpdateError bodyError, st)
             | None \<Rightarrow>
                 (let updatedNote = note\<lparr>
                        title := (case u_title dto of Some t \<Rightarrow> trim t | None \<Rightarrow> title note),
                        body := (case u_body dto of Some b \<Rightarrow> b | None \<Rightarrow> body note),
                        updatedAt := Some now\<rparr>
                  in (UpdateOk updatedNote, storage_saveNote st updatedNote)))))"

definition deleteNote :: "Storage \<Rightarrow> jsstring \<Rightarrow> jsstring \<Rightarrow> DeleteResult \<times> Storage" where
  "deleteNote st i u =
     (case storage_getNote st i of
        None \<Rightarrow> (DeleteNotFound, st)
      | Some note \<Rightarrow>
          if userId note \<noteq> u then (DeleteForbidden, st)
          else (DeleteSuccess, snd (storage_deleteNote st i)))"

section \<open>Reachable stores and sequences of calls\<close>

text \<open>
  \<open>saveNote\<close> is the only writer of the note map and stores a note under its own
  identifier, and a \<open>Map\<close> holds a key once: every store the service can reach
  satisfies \<open>store_inv\<close>.
\<close>

definition store_inv :: "Storage \<Rightarrow> bool" where
  "store_inv st \<longleftrightarrow>
     distinct (map fst (notes' st)) \<and> (\<forall>p \<in> set (notes' st). id' (snd p) = fst p)"

definition empty_store :: Storage where
  "empty_store = \<lparr>notes' = [], tokens' = []\<rparr>"

text \<open>
  The calls a client of the two services can make, with the values the environment
  supplies to each (random identifier, clock).
\<close>

datatype Op =
    OpCreate jsstring int jsstring CreateNoteDto
  | OpList jsstring
  | OpGet jsstring
  | OpUpdate int jsstring jsstring UpdateNoteDto
  | OpDelete jsstring jsstring
  | OpIssue jsstring jsstring
  | OpResolve jsstring

fun step :: "Storage \<Rightarrow> Op \<Rightarrow> Storage" where
  "step st (OpCreate uuid now u dto) = snd (createNote st uuid now u dto)"
| "step st (OpList u) = snd (getUserNotes st u)"
| "step st (OpGet i) = snd (getNote st i)"
| "step st (OpUpdate now i u dto) = snd (updateNote st now i u dto)"
| "step st (OpDelete i u) = snd (deleteNote st i u)"
| "step st (OpIssue uuid u) = snd (generateToken st uuid u)"
| "step st (OpResolve token) = st"

definition run :: "Storage \<Rightarrow> Op list \<Rightarrow> Storage" where
  "run st ops = foldl step st ops"

text \<open>The only call that can bring an identifier into the note map.\<close>

fun allocates :: "jsstring \<Rightarrow> Op \<Rightarrow> bool" where
  "allocates i (OpCreate uuid now u dto) = (ascii ''note_'' @ uuid = i)"
| "allocates i _ = False"

section \<open>Example values\<close>

text \<open>
  A store holding one note of user \<open>a\<close>, used to run the operations on concrete
  input. \<open>0x61\<close> is the letter a, \<open>0x62\<close> the letter b, \<open>0x20\<close> a space.
\<close>

definition alice_note :: Note where
  "alice_note = \<lparr>id' = [0x6E, 0x31], userId = [0x61], title = [0x54], body = [0x62],
     createdAt = 3, updatedAt = None\<rparr>"

definition alice_store :: Storage where
  "alice_store = \<lparr>notes' = [([0x6E, 0x31], alice_note)], tokens' = []\<rparr>"

text \<open>
  Three notes of user \<open>a\<close> titled A, B and C, as \<open>createNote\<close> builds them from the
  random identifiers 1, 2 and 3 at a given instant, and the store holding a list of
  notes in insertion order.
\<close>

definition note_A :: "int \<Rightarrow> Note" where
  "note_A now = \<lparr>id' = ascii ''note_'' @ [0x31], userId = [0x61], title = [0x41], body = [],
     createdAt = now, updatedAt = None\<rparr>"

definition note_B :: "int \<Rightarrow> Note" where
  "note_B now = \<lparr>id' = ascii ''note_'' @ [0x32], userId = [0x61], title = [0x42], body = [],
     createdAt = now, updatedAt = None\<rparr>"

definition note_C :: "int \<Rightarrow> Note" where
  "note_C now = \<lparr>id' = ascii ''note_'' @ [0x33], userId = [0x61], title = [0x43], body = [],
     createdAt = now, updatedAt = None\<rparr>"

definition store_of :: "Note list \<Rightarrow> Storage" where
  "store_of ns = \<lparr>notes' = map (\<lambda>n. (id' n, n)) ns, tokens' = []\<rparr>"


section \<open>Facts about the map and the sort\<close>

lemma map_get_map_set:
  "map_get (map_set k v m) k' = (if k' = k then Some v else map_get m k')"
  by (induction m) auto

lemma map_get_delete:
  "map_get (snd (map_delete k m)) k' = (if k' = k then None else map_get m k')"
  by (induction m) (auto simp: map_delete_def)

lemma map_get_None_iff: "map_get m k = None \<longleftrightarrow> k \<notin> fst ` set m"
  by (induction m) auto

lemma map_set_fresh: "map_get m k = None \<Longrightarrow> map_set k v m = m @ [(k, v)]"
  by (induction m) (auto split: if_splits)

lemma map_get_Some_mem: "map_get m k = Some v \<Longrightarrow> (k, v) \<in> set m"
  by (induction m) (auto split: if_splits)

section \<open>Facts about trimming and the validators\<close>

lemma all_dropWhile: "(\<forall>x \<in> set (dropWhile P s). P x) \<longleftrightarrow> (\<forall>x \<in> set s. P x)"
  by (induction s) auto

lemma trim_empty_iff: "trim s = [] \<longleftrightarrow> (\<forall>c \<in> set s. isWhiteSpace c)"
  by (simp add: trim_def all_dropWhile)

lemma trim_Nil: "trim [] = []"
  by (simp add: trim_def)

lemma trim_id:
  assumes "s \<noteq> []" and "\<not> isWhiteSpace (hd s)" and "\<not> isWhiteSpace (last s)"
  shows "trim s = s"
proof -
  have lead: "dropWhile isWhiteSpace s = s"
    using assms by (simp add: dropWhile_eq_self_iff)
  have trail: "dropWhile isWhiteSpace (rev s) = rev s"
    using assms by (simp add: dropWhile_eq_self_iff hd_rev)
  show ?thesis
    by (simp add: trim_def lead trail)
qed

lemma validateTitle_required:
  "validateTitle t = Some ''Title is required'' \<longleftrightarrow>
     t = None \<or> (\<exists>s. t = Some s \<and> trim s = [])"
  by (cases t) (auto simp: validateTitle_def truthy_def trim_Nil Let_def)

lemma validateTitle_too_long:
  "validateTitle (Some s) = Some ''Title must not exceed 80 characters'' \<longleftrightarrow>
     80 < length (trim s)"
  by (auto simp: validateTitle_def truthy_def trim_Nil Let_def)

lemma validateTitle_ok:
  "validateTitle t = None \<longleftrightarrow> (\<exists>s. t = Some s \<and> trim s \<noteq> [] \<and> length (trim s) \<le> 80)"
  by (cases t) (auto simp: validateTitle_def truthy_def trim_Nil Let_def)

lemma validateBody_ok:
  "validateBody b = None \<longleftrightarrow> (\<forall>s. b = Some s \<longrightarrow> length s \<le> 500)"
  by (cases b) (auto simp: validateBody_def)

lemma validateBody_too_long:
  "validateBody b = Some e \<longleftrightarrow>
     (\<exists>s. b = Some s \<and> 500 < length s \<and> e = ''Body must not exceed 500 characters'')"
  by (cases b) (auto simp: validateBody_def)

lemma isWhiteSpace_space: "isWhiteSpace 0x20"
  by (simp add: isWhiteSpace_def)

lemma not_isWhiteSpace_A: "\<not> isWhiteSpace 0x41"
  by (simp add: isWhiteSpace_def)

lemma trim_As: "0 < n \<Longrightarrow> trim (replicate n 0x41) = replicate n 0x41"
  by (rule trim_id) (simp_all add: not_isWhiteSpace_A)

lemma alice_get: "storage_getNote alice_store [0x6E, 0x31] = Some alice_note"
  by (simp add: storage_getNote_def alice_store_def)

lemma alice_get_other: "storage_getNote alice_store [0x78] = None"
  by (simp add: storage_getNote_def alice_store_def)

lemma alice_owner: "userId alice_note = [0x61]"
  by (simp add: alice_note_def)

section \<open>Facts about reachable stores\<close>

lemma map_fst_map_set:
  "map fst (map_set k v m) = (if k \<in> fst ` set m then map fst m else map fst m @ [k])"
  by (induction m) auto

lemma set_map_set: "set (map_set k v m) \<subseteq> insert (k, v) (set m)"
  by (induction m) auto

lemma store_inv_empty: "store_inv empty_store"
  by (simp add: store_inv_def empty_store_def)

lemma store_inv_saveNote: "store_inv st \<Longrightarrow> store_inv (storage_saveNote st n)"
  using set_map_set [of "id' n" n "notes' st"]
  by (auto simp: store_inv_def storage_saveNote_def map_fst_map_set)

lemma store_inv_deleteNote: "store_inv st \<Longrightarrow> store_inv (snd (storage_deleteNote st i))"
  by (auto simp: store_inv_def storage_deleteNote_def map_delete_def distinct_map_filter)

lemma store_inv_getNote: "store_inv st \<Longrightarrow> storage_getNote st i = Some n \<Longrightarrow> id' n = i"
  by (auto simp: store_inv_def storage_getNote_def dest!: map_get_Some_mem)

lemma store_inv_createNote: "store_inv st \<Longrightarrow> store_inv (snd (createNote st uuid now u dto))"
  by (auto simp: createNote_def Let_def store_inv_saveNote split: option.splits)

lemma store_inv_updateNote: "store_inv st \<Longrightarrow> store_inv (snd (updateNote st now i u dto))"
  by (auto simp: updateNote_def Let_def store_inv_saveNote split: option.splits)

lemma store_inv_deleteNote': "store_inv st \<Longrightarrow> store_inv (snd (deleteNote st i u))"
  by (auto simp: deleteNote_def store_inv_deleteNote split: option.splits)

lemma store_inv_generateToken: "store_inv st \<Longrightarrow> store_inv (snd (generateToken st uuid u))"
  by (simp add: generateToken_def storage_saveToken_def store_inv_def Let_def)

lemma store_inv_step: "store_inv st \<Longrightarrow> store_inv (step st op)"
  by (cases op)
    (simp_all add: store_inv_createNote store_inv_updateNote store_inv_deleteNote'
      store_inv_generateToken getUserNotes_def getNote_def)

lemma store_inv_run: "store_inv st \<Longrightarrow> store_inv (run st ops)"
  by (induction ops arbitrary: st) (simp_all add: run_def store_inv_step)

lemma getNote_saveNote:
  "storage_getNote (storage_saveNote st n) k
     = (if k = id' n then Some n else storage_getNote st k)"
  by (simp add: storage_getNote_def storage_saveNote_def map_get_map_set)

lemma alice_inv: "store_inv alice_store"
  by (simp add: store_inv_def alice_store_def alice_note_def)

lemma getNote_deleteNote:
  "storage_getNote (snd (storage_deleteNote st i)) k
     = (if k = i then None else storage_getNote st k)"
  using map_get_delete [of i "notes' st" k]
  by (auto simp: storage_getNote_def storage_deleteNote_def split: prod.splits)

lemma absent_step:
  assumes "store_inv st" and "storage_getNote st i = None" and "\<not> allocates i op"
  shows "storage_getNote (step st op) i = None"
proof (cases op)
  case (OpCreate uuid now u dto)
  with assms show ?thesis
    by (auto simp: createNote_def Let_def getNote_saveNote split: option.splits)
next
  case (OpUpdate now k u dto)
  show ?thesis
  proof (cases "storage_getNote st k")
    case None
    with assms OpUpdate show ?thesis
      by (simp add: updateNote_def)
  next
    case (Some n)
    with assms(1) have "id' n = k"
      by (simp add: store_inv_getNote)
    moreover from Some assms(2) have "k \<noteq> i"
      by auto
    ultimately show ?thesis
      using assms(2) Some OpUpdate
      by (auto simp: updateNote_def Let_def getNote_saveNote split: option.splits)
  qed
next
  case (OpDelete k u)
  with assms show ?thesis
    by (auto simp: deleteNote_def getNote_deleteNote split: option.splits)
next
  case (OpIssue uuid u)
  with assms show ?thesis
    by (simp add: generateToken_def storage_saveToken_def storage_getNote_def Let_def)
qed (use assms in \<open>simp_all add: getUserNotes_def getNote_def\<close>)

lemma absent_run:
  "store_inv st \<Longrightarrow> storage_getNote st i = None \<Longrightarrow> \<forall>op \<in> set ops. \<not> allocates i op \<Longrightarrow>
     storage_getNote (run st ops) i = None"
proof (induction ops arbitrary: st)
  case Nil
  then show ?case by (simp add: run_def)
next
  case (Cons op ops)
  have "storage_getNote (run (step st op) ops) i = None"
    using Cons.prems by (intro Cons.IH store_inv_step absent_step) simp_all
  then show ?case by (simp add: run_def)
qed

lemma absent_not_found:
  "storage_getNote st i = None \<Longrightarrow>
     fst (getNote st i) = None \<and>
     fst (updateNote st now i u dto) = UpdateNotFound \<and>
     fst (deleteNote st i u) = DeleteNotFound"
  by (simp add: getNote_def updateNote_def deleteNote_def)

section \<open>Facts about creating and listing\<close>

lemma createNote_Ok:
  assumes "createNote st uuid now u dto = (CreateOk n, st')"
    and "storage_getNote st (ascii ''note_'' @ uuid) = None"
  shows "id' n = ascii ''note_'' @ uuid \<and>
         userId n = u \<and>
         (\<exists>t. c_title dto = Some t \<and> title n = trim t) \<and>
         body n = (case c_body dto of Some b \<Rightarrow> b | None \<Rightarrow> []) \<and>
         createdAt n = now \<and>
         updatedAt n = None \<and>
         storage_getNote st' (id' n) = Some n \<and>
         notes' st' = notes' st @ [(id' n, n)] \<and>
         tokens' st' = tokens' st"
proof -
  from assms(1) obtain t where t: "c_title dto = Some t"
    by (auto simp: createNote_def split: option.splits)
  from assms(1) t have n: "n = \<lparr>id' = ascii ''note_'' @ uuid, userId = u, title = trim t,
        body = (case c_body dto of None \<Rightarrow> [] | Some b \<Rightarrow> if b \<noteq> [] then b else []),
        createdAt = now, updatedAt = None\<rparr>"
    and st': "st' = storage_saveNote st n"
    by (auto simp: createNote_def Let_def split: option.splits)
  have b: "body n = (case c_body dto of Some b \<Rightarrow> b | None \<Rightarrow> [])"
    by (simp add: n split: option.splits)
  have key: "id' n = ascii ''note_'' @ uuid"
    by (simp add: n)
  from assms(2) have "map_set (id' n) n (notes' st) = notes' st @ [(id' n, n)]"
    unfolding key storage_getNote_def by (rule map_set_fresh)
  then have app: "notes' st' = notes' st @ [(id' n, n)]"
    by (simp add: st' storage_saveNote_def)
  have toks: "tokens' st' = tokens' st"
    by (simp add: st' storage_saveNote_def)
  have stored: "storage_getNote st' (id' n) = Some n"
    by (simp add: st' getNote_saveNote)
  have fields: "userId n = u \<and> title n = trim t \<and> createdAt n = now \<and> updatedAt n = None"
    by (simp add: n)
  show ?thesis
    using key b t fields stored app toks by simp
qed


lemma updateNote_Ok:
  assumes "updateNote st now i u dto = (UpdateOk n', st')" and "storage_getNote st i = Some n"
  shows "n' = n\<lparr>
        title := (case u_title dto of Some t \<Rightarrow> trim t | None \<Rightarrow> title n),
        body := (case u_body dto of Some b \<Rightarrow> b | None \<Rightarrow> body n),
        updatedAt := Some now\<rparr> \<and> st' = storage_saveNote st n'"
  using assms by (auto simp: updateNote_def Let_def split: if_splits option.splits)

lemma updateNote_Ok_stored:
  assumes "updateNote st now i u dto = (UpdateOk n', st')" and "storage_getNote st i = Some n"
  shows "storage_getNote st' (id' n) = Some n'"
proof -
  from updateNote_Ok [OF assms] have "id' n' = id' n" and "st' = storage_saveNote st n'"
    by (simp_all split: option.splits)
  then show ?thesis
    by (simp add: getNote_saveNote)
qed

lemma createNote_never_throws: "fst (createNote st uuid now u dto) \<noteq> CreateTypeError"
  by (auto simp: createNote_def Let_def validateTitle_ok split: option.splits)

lemma sort_insert_insort:
  fixes f :: "'a \<Rightarrow> int"
  shows "sort_insert (\<lambda>a b. f b - f a) x ys = insort_key (\<lambda>n. - f n) x ys"
  by (induction ys) auto

lemma array_sort_sort_key:
  fixes f :: "'a \<Rightarrow> int"
  shows "array_sort (\<lambda>a b. f b - f a) xs = sort_key (\<lambda>n. - f n) xs"
  by (induction xs) (simp_all add: array_sort_def sort_insert_insort)

lemma getNotesByUser_sort_key:
  "storage_getNotesByUser st u
     = sort_key (\<lambda>n. - createdAt n) (filter (\<lambda>n. userId n = u) (map snd (notes' st)))"
  by (simp add: storage_getNotesByUser_def array_sort_sort_key filter_map comp_def)

lemma getNotesByUser_mset:
  "mset (storage_getNotesByUser st u) = mset (filter (\<lambda>n. userId n = u) (map snd (notes' st)))"
  by (simp add: getNotesByUser_sort_key)

lemma getNotesByUser_sorted:
  "sorted_wrt (\<lambda>a b. createdAt b \<le> createdAt a) (storage_getNotesByUser st u)"
proof -
  have "sorted (map (\<lambda>n. - createdAt n) (storage_getNotesByUser st u))"
    unfolding getNotesByUser_sort_key by (rule sorted_sort_key)
  then show ?thesis
    by (simp add: sorted_map)
qed

lemma three_sorted:
  fixes f :: "'a \<Rightarrow> int"
  assumes "f a < f b" and "f b < f c"
  shows "sort_key (\<lambda>n. - f n) [a, b, c] = [c, b, a]"
  using assms by simp

lemma three_creates_newest_first:
  assumes inv: "store_inv st"
    and c1: "createNote st uuid1 t1 u d1 = (CreateOk n1, st1)"
    and c2: "createNote st1 uuid2 t2 u d2 = (CreateOk n2, st2)"
    and c3: "createNote st2 uuid3 t3 u d3 = (CreateOk n3, st3)"
    and f1: "storage_getNote st (ascii ''note_'' @ uuid1) = None"
    and f2: "storage_getNote st (ascii ''note_'' @ uuid2) = None"
    and f3: "storage_getNote st (ascii ''note_'' @ uuid3) = None"
    and d: "distinct [uuid1, uuid2, uuid3]"
    and t: "t1 < t2" "t2 < t3"
  shows "filter (\<lambda>n. id' n \<in> {id' n1, id' n2, id' n3}) (storage_getNotesByUser st3 u)
           = [n3, n2, n1]"
proof -
  note r1 = createNote_Ok [OF c1 f1]
  have f2': "storage_getNote st1 (ascii ''note_'' @ uuid2) = None"
    using f2 d r1 by (auto simp: storage_getNote_def map_get_None_iff)
  note r2 = createNote_Ok [OF c2 f2']
  have f3': "storage_getNote st2 (ascii ''note_'' @ uuid3) = None"
    using f3 d r1 r2 by (auto simp: storage_getNote_def map_get_None_iff)
  note r3 = createNote_Ok [OF c3 f3']
  have all: "notes' st3 = notes' st @ [(id' n1, n1), (id' n2, n2), (id' n3, n3)]"
    using r1 r2 r3 by simp
  have old: "id' n \<notin> {id' n1, id' n2, id' n3}" if "n \<in> snd ` set (notes' st)" for n
  proof -
    from that obtain k where k: "(k, n) \<in> set (notes' st)"
      by auto
    with inv have "id' n = k"
      by (auto simp: store_inv_def)
    with k have mem: "id' n \<in> fst ` set (notes' st)"
      by (auto intro: rev_image_eqI)
    have "id' n1 \<notin> fst ` set (notes' st)" "id' n2 \<notin> fst ` set (notes' st)"
      "id' n3 \<notin> fst ` set (notes' st)"
      using f1 f2 f3 r1 r2 r3 by (simp_all add: storage_getNote_def map_get_None_iff)
    with mem show ?thesis
      by (metis insertE singletonD)
  qed
  then have none: "filter (\<lambda>n. id' n \<in> {id' n1, id' n2, id' n3})
      (filter (\<lambda>n. userId n = u) (map snd (notes' st))) = []"
    by (auto simp: filter_empty_conv)
  have ids: "id' n1 \<noteq> id' n2" "id' n1 \<noteq> id' n3" "id' n2 \<noteq> id' n3"
    using d r1 r2 r3 by simp_all
  have "filter (\<lambda>n. id' n \<in> {id' n1, id' n2, id' n3}) (storage_getNotesByUser st3 u)
      = sort_key (\<lambda>n. - createdAt n) [n1, n2, n3]"
    unfolding getNotesByUser_sort_key filter_sort
    using r1 r2 r3 none by (simp add: all)
  also have "\<dots> = [n3, n2, n1]"
    using t r1 r2 r3 by (intro three_sorted) simp_all
  finally show ?thesis .
qed

lemma trim_letter: "\<not> isWhiteSpace c \<Longrightarrow> trim [c] = [c]"
  by (simp add: trim_def)

lemma tie_create:
  "\<not> isWhiteSpace c \<Longrightarrow>
   createNote st uuid now u \<lparr>c_title = Some [c], c_body = None\<rparr>
     = (CreateOk \<lparr>id' = ascii ''note_'' @ uuid, userId = u, title = [c], body = [],
          createdAt = now, updatedAt = None\<rparr>,
        storage_saveNote st \<lparr>id' = ascii ''note_'' @ uuid, userId = u, title = [c], body = [],
          createdAt = now, updatedAt = None\<rparr>)"
  by (simp add: createNote_def validateTitle_def validateBody_def truthy_def trim_letter Let_def)

lemma store_of_alice: "alice_store = store_of [alice_note]"
  by (simp add: alice_store_def store_of_def alice_note_def)

lemma store_of_save:
  "id' n \<notin> set (map id' ns) \<Longrightarrow> storage_saveNote (store_of ns) n = store_of (ns @ [n])"
  by (simp add: storage_saveNote_def store_of_def map_set_fresh map_get_None_iff image_image)

lemma letters: "\<not> isWhiteSpace 0x41" "\<not> isWhiteSpace 0x42" "\<not> isWhiteSpace 0x43"
  by (simp_all add: isWhiteSpace_def)

lemma create_A:
  "ascii ''note_'' @ [0x31] \<notin> set (map id' ns) \<Longrightarrow>
   createNote (store_of ns) [0x31] now [0x61] \<lparr>c_title = Some [0x41], c_body = None\<rparr>
     = (CreateOk (note_A now), store_of (ns @ [note_A now]))"
  using store_of_save [of "note_A now" ns]
  by (simp add: tie_create letters note_A_def)

lemma create_B:
  "ascii ''note_'' @ [0x32] \<notin> set (map id' ns) \<Longrightarrow>
   createNote (store_of ns) [0x32] now [0x61] \<lparr>c_title = Some [0x42], c_body = None\<rparr>
     = (CreateOk (note_B now), store_of (ns @ [note_B now]))"
  using store_of_save [of "note_B now" ns]
  by (simp add: tie_create letters note_B_def)

lemma create_C:
  "ascii ''note_'' @ [0x33] \<notin> set (map id' ns) \<Longrightarrow>
   createNote (store_of ns) [0x33] now [0x61] \<lparr>c_title = Some [0x43], c_body = None\<rparr>
     = (CreateOk (note_C now), store_of (ns @ [note_C now]))"
  using store_of_save [of "note_C now" ns]
  by (simp add: tie_create letters note_C_def)

lemma store_of_inv_alice: "store_inv (store_of [alice_note])"
  using alice_inv by (simp add: store_of_alice)

section \<open>Token round trip\<close>

text \<open>
  C4. For every non-empty user identifier, the token returned by \<open>generateToken\<close>
  (issueToken) resolves, in the storage that call leaves behind, to that same user
  identifier under \<open>validateToken\<close> (resolveUser).
\<close>

theorem issue_then_resolve:
  assumes "u \<noteq> []" and "generateToken st uuid u = (token, st')"
  shows "validateToken st' token = Some u"
  using assms
  by (auto simp: generateToken_def validateToken_def storage_saveToken_def
      storage_getUserIdByToken_def truthy_def map_get_map_set Let_def)

theorem issue_then_resolve_witness:
  "[0x61 :: 16 word] \<noteq> [] \<and>
   generateToken \<lparr>notes' = [], tokens' = []\<rparr> [0x31] [0x61]
     = (ascii ''fake_'' @ [0x31],
        \<lparr>notes' = [], tokens' = [(ascii ''fake_'' @ [0x31], [0x61])]\<rparr>) \<and>
   validateToken \<lparr>notes' = [], tokens' = [(ascii ''fake_'' @ [0x31], [0x61])]\<rparr>
     (ascii ''fake_'' @ [0x31]) = Some [0x61]"
proof -
  have g: "generateToken \<lparr>notes' = [], tokens' = []\<rparr> [0x31] [0x61]
     = (ascii ''fake_'' @ [0x31],
        \<lparr>notes' = [], tokens' = [(ascii ''fake_'' @ [0x31], [0x61])]\<rparr>)"
    by (simp add: generateToken_def storage_saveToken_def Let_def)
  show ?thesis
    using g issue_then_resolve [OF _ g] by simp
qed

text \<open>
  C10. \<open>validateToken\<close> answers absent exactly when the token has no entry or is bound
  to the empty user identifier. A token issued for the empty user identifier is
  stored, and resolves as absent.
\<close>

theorem empty_user_resolves_absent:
  "(validateToken st token = None \<longleftrightarrow>
      storage_getUserIdByToken st token = None \<or>
      storage_getUserIdByToken st token = Some []) \<and>
   storage_getUserIdByToken (snd (generateToken st uuid []))
      (fst (generateToken st uuid [])) = Some [] \<and>
   validateToken (snd (generateToken st uuid [])) (fst (generateToken st uuid [])) = None"
  by (auto simp: generateToken_def validateToken_def storage_saveToken_def
      storage_getUserIdByToken_def truthy_def map_get_map_set Let_def split: option.splits)

section \<open>Validation order\<close>

text \<open>
  C2. \<open>createNote\<close> validates the title before the body and reports the first failure:
  a missing, empty or whitespace-only title gives "Title is required"; a title whose
  trimmed length exceeds 80 gives "Title must not exceed 80 characters"; both whatever
  the body is. With a valid title, a body of raw length above 500 gives "Body must not
  exceed 500 characters". With both valid the call returns a note.
\<close>

theorem create_validation_order:
  "(c_title dto = None \<or> (\<exists>t. c_title dto = Some t \<and> (\<forall>c \<in> set t. isWhiteSpace c)) \<longrightarrow>
      createNote st uuid now u dto = (CreateError ''Title is required'', st)) \<and>
   (\<forall>t. c_title dto = Some t \<and> 80 < length (trim t) \<longrightarrow>
      createNote st uuid now u dto = (CreateError ''Title must not exceed 80 characters'', st)) \<and>
   (\<forall>t b. c_title dto = Some t \<and> trim t \<noteq> [] \<and> length (trim t) \<le> 80 \<and>
          c_body dto = Some b \<and> 500 < length b \<longrightarrow>
      createNote st uuid now u dto = (CreateError ''Body must not exceed 500 characters'', st)) \<and>
   (\<forall>t. c_title dto = Some t \<and> trim t \<noteq> [] \<and> length (trim t) \<le> 80 \<and>
        (\<forall>b. c_body dto = Some b \<longrightarrow> length b \<le> 500) \<longrightarrow>
      (\<exists>n. fst (createNote st uuid now u dto) = CreateOk n))"
proof (intro conjI allI impI)
  assume "c_title dto = None \<or> (\<exists>t. c_title dto = Some t \<and> (\<forall>c \<in> set t. isWhiteSpace c))"
  then have "validateTitle (c_title dto) = Some ''Title is required''"
    unfolding validateTitle_required trim_empty_iff by blast
  then show "createNote st uuid now u dto = (CreateError ''Title is required'', st)"
    by (simp add: createNote_def)
next
  fix t assume "c_title dto = Some t \<and> 80 < length (trim t)"
  then have "validateTitle (c_title dto) = Some ''Title must not exceed 80 characters''"
    by (simp add: validateTitle_too_long)
  then show "createNote st uuid now u dto
      = (CreateError ''Title must not exceed 80 characters'', st)"
    by (simp add: createNote_def)
next
  fix t b
  assume a: "c_title dto = Some t \<and> trim t \<noteq> [] \<and> length (trim t) \<le> 80 \<and>
          c_body dto = Some b \<and> 500 < length b"
  then have "validateTitle (c_title dto) = None"
    by (simp add: validateTitle_ok)
  moreover from a have "validateBody (c_body dto) = Some ''Body must not exceed 500 characters''"
    by (simp add: validateBody_too_long)
  ultimately show "createNote st uuid now u dto
      = (CreateError ''Body must not exceed 500 characters'', st)"
    by (simp add: createNote_def)
next
  fix t
  assume a: "c_title dto = Some t \<and> trim t \<noteq> [] \<and> length (trim t) \<le> 80 \<and>
        (\<forall>b. c_body dto = Some b \<longrightarrow> length b \<le> 500)"
  then have "validateTitle (c_title dto) = None"
    by (simp add: validateTitle_ok)
  moreover from a have "validateBody (c_body dto) = None"
    by (simp add: validateBody_ok)
  ultimately show "\<exists>n. fst (createNote st uuid now u dto) = CreateOk n"
    using a by (simp add: createNote_def Let_def)
qed

theorem create_validation_order_witness:
  "isWhiteSpace 0x20 \<and>
   createNote empty_store [0x31] 7 [0x61]
      \<lparr>c_title = Some [0x20, 0x20, 0x20], c_body = Some (replicate 501 0x41)\<rparr>
     = (CreateError ''Title is required'', empty_store) \<and>
   createNote empty_store [0x31] 7 [0x61]
      \<lparr>c_title = None, c_body = None\<rparr>
     = (CreateError ''Title is required'', empty_store) \<and>
   80 < length (trim (replicate 81 0x41)) \<and>
   createNote empty_store [0x31] 7 [0x61]
      \<lparr>c_title = Some (replicate 81 0x41), c_body = Some (replicate 501 0x41)\<rparr>
     = (CreateError ''Title must not exceed 80 characters'', empty_store) \<and>
   trim [0x41] \<noteq> [] \<and> length (trim [0x41]) \<le> 80 \<and> 500 < length (replicate 501 (0x41 :: 16 word)) \<and>
   createNote empty_store [0x31] 7 [0x61]
      \<lparr>c_title = Some [0x41], c_body = Some (replicate 501 0x41)\<rparr>
     = (CreateError ''Body must not exceed 500 characters'', empty_store) \<and>
   fst (createNote empty_store [0x31] 7 [0x61] \<lparr>c_title = Some [0x41], c_body = None\<rparr>)
     = CreateOk \<lparr>id' = ascii ''note_'' @ [0x31], userId = [0x61], title = [0x41], body = [],
          createdAt = 7, updatedAt = None\<rparr>"
proof -
  have t1: "trim [0x41] = [0x41]"
    using trim_As [of 1] by simp
  have t81: "trim (replicate 81 0x41) = replicate 81 0x41"
    by (simp add: trim_As)
  note v = create_validation_order [of _ empty_store "[0x31]" 7 "[0x61]"]
  have r1: "createNote empty_store [0x31] 7 [0x61]
      \<lparr>c_title = Some [0x20, 0x20, 0x20], c_body = Some (replicate 501 0x41)\<rparr>
     = (CreateError ''Title is required'', empty_store)"
    using v [of "\<lparr>c_title = Some [0x20, 0x20, 0x20], c_body = Some (replicate 501 0x41)\<rparr>"]
    by (simp add: isWhiteSpace_space)
  have r2: "createNote empty_store [0x31] 7 [0x61] \<lparr>c_title = None, c_body = None\<rparr>
     = (CreateError ''Title is required'', empty_store)"
    using v [of "\<lparr>c_title = None, c_body = None\<rparr>"] by simp
  have r3: "createNote empty_store [0x31] 7 [0x61]
      \<lparr>c_title = Some (replicate 81 0x41), c_body = Some (replicate 501 0x41)\<rparr>
     = (CreateError ''Title must not exceed 80 characters'', empty_store)"
    using v [of "\<lparr>c_title = Some (replicate 81 0x41), c_body = Some (replicate 501 0x41)\<rparr>"]
    by (simp add: t81)
  have r4: "createNote empty_store [0x31] 7 [0x61]
      \<lparr>c_title = Some [0x41], c_body = Some (replicate 501 0x41)\<rparr>
     = (CreateError ''Body must not exceed 500 characters'', empty_store)"
    using v [of "\<lparr>c_title = Some [0x41], c_body = Some (replicate 501 0x41)\<rparr>"]
    by (simp add: t1)
  have r5: "fst (createNote empty_store [0x31] 7 [0x61] \<lparr>c_title = Some [0x41], c_body = None\<rparr>)
     = CreateOk \<lparr>id' = ascii ''note_'' @ [0x31], userId = [0x61], title = [0x41], body = [],
          createdAt = 7, updatedAt = None\<rparr>"
    by (simp add: createNote_def validateTitle_def validateBody_def truthy_def t1 Let_def)
  show ?thesis
    using r1 r2 r3 r4 r5 by (simp add: isWhiteSpace_space t1 t81)
qed

text \<open>
  C1. \<open>updateNote\<close> reports the first applicable failure in the order: unknown
  identifier (not found), foreign owner (forbidden), no field supplied ("No updatable
  fields provided"), invalid supplied title, invalid supplied body. Ownership is decided
  before any field is looked at, and when no failure applies the call returns a note.
\<close>

theorem update_first_failure:
  "(storage_getNote st i = None \<longrightarrow> fst (updateNote st now i u dto) = UpdateNotFound) \<and>
   (\<forall>n. storage_getNote st i = Some n \<and> userId n \<noteq> u \<longrightarrow>
      fst (updateNote st now i u dto) = UpdateForbidden) \<and>
   (\<forall>n. storage_getNote st i = Some n \<and> userId n = u \<and>
        u_title dto = None \<and> u_body dto = None \<longrightarrow>
      fst (updateNote st now i u dto) = UpdateError ''No updatable fields provided'') \<and>
   (\<forall>n t e. storage_getNote st i = Some n \<and> userId n = u \<and>
        u_title dto = Some t \<and> validateTitle (Some t) = Some e \<longrightarrow>
      fst (updateNote st now i u dto) = UpdateError e) \<and>
   (\<forall>n b e. storage_getNote st i = Some n \<and> userId n = u \<and>
        (u_title dto = None \<or> validateTitle (u_title dto) = None) \<and>
        u_body dto = Some b \<and> validateBody (Some b) = Some e \<longrightarrow>
      fst (updateNote st now i u dto) = UpdateError e) \<and>
   (\<forall>n. storage_getNote st i = Some n \<and> userId n = u \<and>
        (u_title dto \<noteq> None \<or> u_body dto \<noteq> None) \<and>
        (u_title dto = None \<or> validateTitle (u_title dto) = None) \<and>
        (u_body dto = None \<or> validateBody (u_body dto) = None) \<longrightarrow>
      (\<exists>n'. fst (updateNote st now i u dto) = UpdateOk n'))"
  by (auto simp: updateNote_def Let_def split: option.splits)

theorem update_first_failure_witness:
  "storage_getNote alice_store [0x78] = None \<and>
   fst (updateNote alice_store 9 [0x78] [0x62]
          \<lparr>u_title = Some [0x20], u_body = Some (replicate 501 0x41)\<rparr>) = UpdateNotFound \<and>
   storage_getNote alice_store [0x6E, 0x31] = Some alice_note \<and> userId alice_note \<noteq> [0x62] \<and>
   fst (updateNote alice_store 9 [0x6E, 0x31] [0x62]
          \<lparr>u_title = Some [0x20], u_body = Some (replicate 501 0x41)\<rparr>) = UpdateForbidden \<and>
   userId alice_note = [0x61] \<and>
   fst (updateNote alice_store 9 [0x6E, 0x31] [0x61] \<lparr>u_title = None, u_body = None\<rparr>)
     = UpdateError ''No updatable fields provided'' \<and>
   validateTitle (Some [0x20]) = Some ''Title is required'' \<and>
   fst (updateNote alice_store 9 [0x6E, 0x31] [0x61]
          \<lparr>u_title = Some [0x20], u_body = Some (replicate 501 0x41)\<rparr>)
     = UpdateError ''Title is required'' \<and>
   validateBody (Some (replicate 501 0x41)) = Some ''Body must not exceed 500 characters'' \<and>
   fst (updateNote alice_store 9 [0x6E, 0x31] [0x61]
          \<lparr>u_title = None, u_body = Some (replicate 501 0x41)\<rparr>)
     = UpdateError ''Body must not exceed 500 characters'' \<and>
   validateTitle (Some [0x41]) = None \<and>
   fst (updateNote alice_store 9 [0x6E, 0x31] [0x61] \<lparr>u_title = Some [0x41], u_body = None\<rparr>)
     = UpdateOk (alice_note\<lparr>title := [0x41], updatedAt := Some 9\<rparr>)"
proof -
  have vt: "validateTitle (Some [0x20]) = Some ''Title is required''"
    by (simp add: validateTitle_required trim_empty_iff isWhiteSpace_space)
  have vb: "validateBody (Some (replicate 501 0x41)) = Some ''Body must not exceed 500 characters''"
    by (simp add: validateBody_def)
  have t1: "trim [0x41] = [0x41]"
    using trim_As [of 1] by simp
  have va: "validateTitle (Some [0x41]) = None"
    by (simp add: validateTitle_ok t1)
  note f = update_first_failure [of alice_store _ 9 _ _]
  have r1: "fst (updateNote alice_store 9 [0x78] [0x62]
          \<lparr>u_title = Some [0x20], u_body = Some (replicate 501 0x41)\<rparr>) = UpdateNotFound"
    using f [of "[0x78]" "[0x62]" "\<lparr>u_title = Some [0x20], u_body = Some (replicate 501 0x41)\<rparr>"]
      alice_get_other by blast
  have r2: "fst (updateNote alice_store 9 [0x6E, 0x31] [0x62]
          \<lparr>u_title = Some [0x20], u_body = Some (replicate 501 0x41)\<rparr>) = UpdateForbidden"
    using f [of "[0x6E, 0x31]" "[0x62]"
        "\<lparr>u_title = Some [0x20], u_body = Some (replicate 501 0x41)\<rparr>"]
      alice_get alice_owner by simp
  have r3: "fst (updateNote alice_store 9 [0x6E, 0x31] [0x61] \<lparr>u_title = None, u_body = None\<rparr>)
     = UpdateError ''No updatable fields provided''"
    using f [of "[0x6E, 0x31]" "[0x61]" "\<lparr>u_title = None, u_body = None\<rparr>"]
      alice_get alice_owner by simp
  have r4: "fst (updateNote alice_store 9 [0x6E, 0x31] [0x61]
          \<lparr>u_title = Some [0x20], u_body = Some (replicate 501 0x41)\<rparr>)
     = UpdateError ''Title is required''"
    using f [of "[0x6E, 0x31]" "[0x61]"
        "\<lparr>u_title = Some [0x20], u_body = Some (replicate 501 0x41)\<rparr>"]
      alice_get alice_owner vt by simp
  have r5: "fst (updateNote alice_store 9 [0x6E, 0x31] [0x61]
          \<lparr>u_title = None, u_body = Some (replicate 501 0x41)\<rparr>)
     = UpdateError ''Body must not exceed 500 characters''"
    using f [of "[0x6E, 0x31]" "[0x61]" "\<lparr>u_title = None, u_body = Some (replicate 501 0x41)\<rparr>"]
      alice_get alice_owner vb by simp
  have r6: "fst (updateNote alice_store 9 [0x6E, 0x31] [0x61] \<lparr>u_title = Some [0x41], u_body = None\<rparr>)
     = UpdateOk (alice_note\<lparr>title := [0x41], updatedAt := Some 9\<rparr>)"
    by (simp add: updateNote_def alice_get alice_owner va t1 Let_def)
  show ?thesis
    using r1 r2 r3 r4 r5 r6 alice_get alice_get_other alice_owner vt vb va by simp
qed

text \<open>
  C5. In \<open>updateNote\<close> on a note of the caller, a supplied title that is empty or
  consists of whitespace only is rejected with "Title is required" and the storage is
  left as it was. With the title omitted, a successful call leaves the title untouched:
  the returned note and the note the store then holds under that identifier both carry
  the previous title; and with a valid body supplied the call does succeed.
\<close>

theorem update_blank_title_vs_omitted:
  "(\<forall>n t. storage_getNote st i = Some n \<and> userId n = u \<and> u_title dto = Some t \<and>
        (\<forall>c \<in> set t. isWhiteSpace c) \<longrightarrow>
      updateNote st now i u dto = (UpdateError ''Title is required'', st)) \<and>
   (\<forall>n n' st'. storage_getNote st i = Some n \<and> u_title dto = None \<and>
        updateNote st now i u dto = (UpdateOk n', st') \<longrightarrow>
      title n' = title n \<and>
      storage_getNote st' (id' n) = Some n' \<and>
      map_option title (storage_getNote st' (id' n)) = Some (title n) \<and>
      (store_inv st \<longrightarrow> map_option title (storage_getNote st' i) = Some (title n))) \<and>
   (\<forall>n b. storage_getNote st i = Some n \<and> userId n = u \<and> u_title dto = None \<and>
        u_body dto = Some b \<and> length b \<le> 500 \<longrightarrow>
      (\<exists>n'. fst (updateNote st now i u dto) = UpdateOk n' \<and> title n' = title n \<and>
            map_option title (storage_getNote (snd (updateNote st now i u dto)) (id' n))
              = Some (title n)))"
proof (intro conjI allI impI)
  fix n t
  assume a: "storage_getNote st i = Some n \<and> userId n = u \<and> u_title dto = Some t \<and>
        (\<forall>c \<in> set t. isWhiteSpace c)"
  then have "validateTitle (u_title dto) = Some ''Title is required''"
    by (simp add: validateTitle_required trim_empty_iff)
  with a show "updateNote st now i u dto = (UpdateError ''Title is required'', st)"
    by (simp add: updateNote_def)
next
  fix n n' st'
  assume a: "storage_getNote st i = Some n \<and> u_title dto = None \<and>
        updateNote st now i u dto = (UpdateOk n', st')"
  then have ok: "updateNote st now i u dto = (UpdateOk n', st')"
    and n: "storage_getNote st i = Some n" and omitted: "u_title dto = None"
    by simp_all
  from updateNote_Ok [OF ok n] omitted show kept: "title n' = title n"
    by simp
  show stored: "storage_getNote st' (id' n) = Some n'"
    using ok n by (rule updateNote_Ok_stored)
  show "map_option title (storage_getNote st' (id' n)) = Some (title n)"
    by (simp add: stored kept)
  show "map_option title (storage_getNote st' i) = Some (title n)" if "store_inv st"
    using store_inv_getNote [OF that n] stored kept by simp
next
  fix n b
  assume a: "storage_getNote st i = Some n \<and> userId n = u \<and> u_title dto = None \<and>
        u_body dto = Some b \<and> length b \<le> 500"
  then have "validateBody (u_body dto) = None"
    by (simp add: validateBody_ok)
  with a obtain n' st' where ok: "updateNote st now i u dto = (UpdateOk n', st')"
    by (simp add: updateNote_def Let_def)
  from a have n: "storage_getNote st i = Some n" and omitted: "u_title dto = None"
    by simp_all
  from updateNote_Ok [OF ok n] omitted have kept: "title n' = title n"
    by simp
  have "storage_getNote st' (id' n) = Some n'"
    using ok n by (rule updateNote_Ok_stored)
  with ok kept show "\<exists>n'. fst (updateNote st now i u dto) = UpdateOk n' \<and> title n' = title n \<and>
            map_option title (storage_getNote (snd (updateNote st now i u dto)) (id' n))
              = Some (title n)"
    by simp
qed

theorem update_blank_title_vs_omitted_witness:
  "storage_getNote alice_store [0x6E, 0x31] = Some alice_note \<and> userId alice_note = [0x61] \<and>
   isWhiteSpace 0x20 \<and> isWhiteSpace 0x09 \<and>
   updateNote alice_store 9 [0x6E, 0x31] [0x61] \<lparr>u_title = Some [0x20, 0x09], u_body = None\<rparr>
     = (UpdateError ''Title is required'', alice_store) \<and>
   updateNote alice_store 9 [0x6E, 0x31] [0x61] \<lparr>u_title = Some [], u_body = None\<rparr>
     = (UpdateError ''Title is required'', alice_store) \<and>
   length [0x63 :: 16 word] \<le> 500 \<and>
   store_inv alice_store \<and>
   updateNote alice_store 9 [0x6E, 0x31] [0x61] \<lparr>u_title = None, u_body = Some [0x63]\<rparr>
     = (UpdateOk (alice_note\<lparr>body := [0x63], updatedAt := Some 9\<rparr>),
        \<lparr>notes' = [([0x6E, 0x31], alice_note\<lparr>body := [0x63], updatedAt := Some 9\<rparr>)],
         tokens' = []\<rparr>) \<and>
   title (alice_note\<lparr>body := [0x63], updatedAt := Some 9\<rparr>) = [0x54] \<and>
   map_option title
     (storage_getNote
        \<lparr>notes' = [([0x6E, 0x31], alice_note\<lparr>body := [0x63], updatedAt := Some 9\<rparr>)],
         tokens' = []\<rparr> [0x6E, 0x31]) = Some [0x54] \<and>
   map_option title
     (storage_getNote
        (snd (updateNote alice_store 9 [0x6E, 0x31] [0x61]
                \<lparr>u_title = None, u_body = Some [0x63]\<rparr>)) (id' alice_note)) = Some [0x54]"
proof -
  have tab: "isWhiteSpace 0x09"
    by (simp add: isWhiteSpace_def)
  have old: "title alice_note = [0x54]"
    by (simp add: alice_note_def)
  note f = update_blank_title_vs_omitted [of alice_store "[0x6E, 0x31]" "[0x61]" _ 9]
  have r1: "updateNote alice_store 9 [0x6E, 0x31] [0x61]
        \<lparr>u_title = Some [0x20, 0x09], u_body = None\<rparr>
     = (UpdateError ''Title is required'', alice_store)"
    using f [of "\<lparr>u_title = Some [0x20, 0x09], u_body = None\<rparr>"]
      alice_get alice_owner isWhiteSpace_space tab by simp
  have r2: "updateNote alice_store 9 [0x6E, 0x31] [0x61] \<lparr>u_title = Some [], u_body = None\<rparr>
     = (UpdateError ''Title is required'', alice_store)"
    using f [of "\<lparr>u_title = Some [], u_body = None\<rparr>"] alice_get alice_owner by simp
  have ok: "updateNote alice_store 9 [0x6E, 0x31] [0x61] \<lparr>u_title = None, u_body = Some [0x63]\<rparr>
     = (UpdateOk (alice_note\<lparr>body := [0x63], updatedAt := Some 9\<rparr>),
        \<lparr>notes' = [([0x6E, 0x31], alice_note\<lparr>body := [0x63], updatedAt := Some 9\<rparr>)],
         tokens' = []\<rparr>)"
    by (simp add: updateNote_def alice_get alice_owner validateBody_def Let_def
        storage_saveNote_def)
      (simp add: alice_store_def alice_note_def)
  note g = f [of "\<lparr>u_title = None, u_body = Some [0x63]\<rparr>"]
  have r3: "title (alice_note\<lparr>body := [0x63], updatedAt := Some 9\<rparr>) = [0x54] \<and>
     map_option title
       (storage_getNote
          \<lparr>notes' = [([0x6E, 0x31], alice_note\<lparr>body := [0x63], updatedAt := Some 9\<rparr>)],
           tokens' = []\<rparr> [0x6E, 0x31]) = Some [0x54]"
    using g alice_get ok alice_inv old by simp
  have r4: "map_option title
     (storage_getNote
        (snd (updateNote alice_store 9 [0x6E, 0x31] [0x61]
                \<lparr>u_title = None, u_body = Some [0x63]\<rparr>)) (id' alice_note)) = Some [0x54]"
    using g alice_get alice_owner old by auto
  show ?thesis
    using r1 r2 ok r3 r4 alice_get alice_owner alice_inv isWhiteSpace_space tab by simp
qed

section \<open>Rejected calls\<close>

text \<open>
  C8. For an existing note and a user other than its owner, \<open>updateNote\<close> and
  \<open>deleteNote\<close> both answer forbidden and return the storage they were given; and every
  \<open>updateNote\<close> or \<open>deleteNote\<close> that does not succeed (not found, forbidden, validation
  error) returns the storage it was given.
\<close>

theorem rejected_calls_leave_store:
  "(\<forall>n. storage_getNote st i = Some n \<and> userId n \<noteq> u \<longrightarrow>
      updateNote st now i u dto = (UpdateForbidden, st) \<and>
      deleteNote st i u = (DeleteForbidden, st)) \<and>
   ((\<forall>n'. fst (updateNote st now i u dto) \<noteq> UpdateOk n') \<longrightarrow>
      snd (updateNote st now i u dto) = st) \<and>
   (fst (deleteNote st i u) \<noteq> DeleteSuccess \<longrightarrow> snd (deleteNote st i u) = st)"
  by (auto simp: updateNote_def deleteNote_def Let_def split: option.splits)

theorem rejected_calls_leave_store_witness:
  "storage_getNote alice_store [0x6E, 0x31] = Some alice_note \<and> userId alice_note \<noteq> [0x62] \<and>
   updateNote alice_store 9 [0x6E, 0x31] [0x62] \<lparr>u_title = Some [0x41], u_body = None\<rparr>
     = (UpdateForbidden, alice_store) \<and>
   deleteNote alice_store [0x6E, 0x31] [0x62] = (DeleteForbidden, alice_store) \<and>
   fst (updateNote alice_store 9 [0x78] [0x61] \<lparr>u_title = Some [0x41], u_body = None\<rparr>)
     = UpdateNotFound \<and>
   snd (updateNote alice_store 9 [0x78] [0x61] \<lparr>u_title = Some [0x41], u_body = None\<rparr>)
     = alice_store \<and>
   fst (updateNote alice_store 9 [0x6E, 0x31] [0x61] \<lparr>u_title = None, u_body = None\<rparr>)
     = UpdateError ''No updatable fields provided'' \<and>
   snd (updateNote alice_store 9 [0x6E, 0x31] [0x61] \<lparr>u_title = None, u_body = None\<rparr>)
     = alice_store \<and>
   fst (deleteNote alice_store [0x78] [0x61]) = DeleteNotFound \<and>
   snd (deleteNote alice_store [0x78] [0x61]) = alice_store"
proof -
  have r1: "updateNote alice_store 9 [0x6E, 0x31] [0x62] \<lparr>u_title = Some [0x41], u_body = None\<rparr>
       = (UpdateForbidden, alice_store) \<and>
     deleteNote alice_store [0x6E, 0x31] [0x62] = (DeleteForbidden, alice_store)"
    using rejected_calls_leave_store [of alice_store "[0x6E, 0x31]" "[0x62]" 9
        "\<lparr>u_title = Some [0x41], u_body = None\<rparr>"] alice_get alice_owner
    by simp
  have f2: "fst (updateNote alice_store 9 [0x78] [0x61] \<lparr>u_title = Some [0x41], u_body = None\<rparr>)
     = UpdateNotFound"
    by (simp add: updateNote_def alice_get_other)
  have r2: "snd (updateNote alice_store 9 [0x78] [0x61] \<lparr>u_title = Some [0x41], u_body = None\<rparr>)
     = alice_store"
    using rejected_calls_leave_store [of alice_store "[0x78]" "[0x61]" 9
        "\<lparr>u_title = Some [0x41], u_body = None\<rparr>"] f2
    by simp
  have f3: "fst (updateNote alice_store 9 [0x6E, 0x31] [0x61] \<lparr>u_title = None, u_body = None\<rparr>)
     = UpdateError ''No updatable fields provided''"
    by (simp add: updateNote_def alice_get alice_owner)
  have r3: "snd (updateNote alice_store 9 [0x6E, 0x31] [0x61] \<lparr>u_title = None, u_body = None\<rparr>)
     = alice_store"
    using rejected_calls_leave_store [of alice_store "[0x6E, 0x31]" "[0x61]" 9
        "\<lparr>u_title = None, u_body = None\<rparr>"] f3
    by simp
  have f4: "fst (deleteNote alice_store [0x78] [0x61]) = DeleteNotFound"
    by (simp add: deleteNote_def alice_get_other)
  have r4: "snd (deleteNote alice_store [0x78] [0x61]) = alice_store"
    using rejected_calls_leave_store [of alice_store "[0x78]" "[0x61]" 9
        "\<lparr>u_title = None, u_body = None\<rparr>"] f4
    by simp
  show ?thesis
    using r1 f2 r2 f3 r3 f4 r4 alice_get alice_owner by simp
qed

section \<open>Successful calls\<close>




text \<open>
  C7. When \<open>updateNote\<close> succeeds on a reachable store, the returned note has the
  trimmed supplied title or else the previous title, the raw supplied body or else the
  previous body, the current instant as update time, and the identifier, owner and
  creation time of the previous record; it replaces that record in the note map (same
  keys in the same order, every other entry as before) and the token map is untouched.
\<close>

theorem update_success:
  assumes "store_inv st" and "updateNote st now i u dto = (UpdateOk n', st')"
  shows "\<exists>n. storage_getNote st i = Some n \<and>
           title n' = (case u_title dto of Some t \<Rightarrow> trim t | None \<Rightarrow> title n) \<and>
           body n' = (case u_body dto of Some b \<Rightarrow> b | None \<Rightarrow> body n) \<and>
           updatedAt n' = Some now \<and>
           id' n' = id' n \<and> id' n' = i \<and>
           userId n' = userId n \<and> userId n' = u \<and>
           createdAt n' = createdAt n \<and>
           storage_getNote st' i = Some n' \<and>
           (\<forall>k. k \<noteq> i \<longrightarrow> storage_getNote st' k = storage_getNote st k) \<and>
           map fst (notes' st') = map fst (notes' st) \<and>
           tokens' st' = tokens' st"
proof -
  from assms(2) obtain n where n: "storage_getNote st i = Some n"
    by (auto simp: updateNote_def split: option.splits)
  with assms(1) have key: "id' n = i"
    by (rule store_inv_getNote)
  from n have present: "i \<in> fst ` set (notes' st)"
    by (auto simp: storage_getNote_def dest!: map_get_Some_mem intro: rev_image_eqI)
  from assms(2) n have owner: "userId n = u"
    by (auto simp: updateNote_def split: if_splits)
  from assms(2) n have new: "n' = n\<lparr>
        title := (case u_title dto of Some t \<Rightarrow> trim t | None \<Rightarrow> title n),
        body := (case u_body dto of Some b \<Rightarrow> b | None \<Rightarrow> body n),
        updatedAt := Some now\<rparr>"
    and st': "st' = storage_saveNote st n'"
    by (auto simp: updateNote_def Let_def split: if_splits option.splits)
  from new key have key': "id' n' = i"
    by simp
  have keys: "map fst (notes' st') = map fst (notes' st)"
    using present by (simp add: st' storage_saveNote_def map_fst_map_set key')
  have toks: "tokens' st' = tokens' st"
    by (simp add: st' storage_saveNote_def)
  show ?thesis
    using n new key owner keys toks
    by (simp add: st' getNote_saveNote)
qed

theorem update_success_witness:
  "store_inv alice_store \<and>
   updateNote alice_store 9 [0x6E, 0x31] [0x61] \<lparr>u_title = Some [0x20, 0x41, 0x20], u_body = None\<rparr>
     = (UpdateOk (alice_note\<lparr>title := [0x41], updatedAt := Some 9\<rparr>),
        \<lparr>notes' = [([0x6E, 0x31], alice_note\<lparr>title := [0x41], updatedAt := Some 9\<rparr>)],
         tokens' = []\<rparr>) \<and>
   storage_getNote alice_store [0x6E, 0x31] = Some alice_note \<and>
   storage_getNote
      \<lparr>notes' = [([0x6E, 0x31], alice_note\<lparr>title := [0x41], updatedAt := Some 9\<rparr>)],
       tokens' = []\<rparr> [0x6E, 0x31]
     = Some (alice_note\<lparr>title := [0x41], updatedAt := Some 9\<rparr>)"
proof -
  have t: "trim [0x20, 0x41, 0x20] = [0x41]"
    by (simp add: trim_def isWhiteSpace_def)
  have v: "validateTitle (Some [0x20, 0x41, 0x20]) = None"
    by (simp add: validateTitle_ok t)
  have r: "updateNote alice_store 9 [0x6E, 0x31] [0x61]
       \<lparr>u_title = Some [0x20, 0x41, 0x20], u_body = None\<rparr>
     = (UpdateOk (alice_note\<lparr>title := [0x41], updatedAt := Some 9\<rparr>),
        \<lparr>notes' = [([0x6E, 0x31], alice_note\<lparr>title := [0x41], updatedAt := Some 9\<rparr>)],
         tokens' = []\<rparr>)"
    by (simp add: updateNote_def alice_get alice_owner v t Let_def storage_saveNote_def)
      (simp add: alice_store_def alice_note_def)
  show ?thesis
    using update_success [OF alice_inv r] r alice_inv alice_get by auto
qed

section \<open>Deleted notes\<close>

text \<open>
  C9. After a successful \<open>deleteNote\<close> the identifier is absent, and it stays absent
  through any later sequence of calls in which no \<open>createNote\<close> draws that identifier
  again: \<open>getNote\<close> answers absent, \<open>updateNote\<close> and \<open>deleteNote\<close> answer not found. The
  same holds from the empty store for an identifier that was never created.
\<close>

theorem deleted_is_absorbing:
  "(store_inv st \<and> deleteNote st i owner = (DeleteSuccess, st') \<and>
      (\<forall>op \<in> set ops. \<not> allocates i op) \<longrightarrow>
      fst (getNote st' i) = None \<and>
      fst (getNote (run st' ops) i) = None \<and>
      fst (updateNote (run st' ops) now i u dto) = UpdateNotFound \<and>
      fst (deleteNote (run st' ops) i u) = DeleteNotFound) \<and>
   ((\<forall>op \<in> set ops. \<not> allocates i op) \<longrightarrow>
      fst (getNote (run empty_store ops) i) = None \<and>
      fst (updateNote (run empty_store ops) now i u dto) = UpdateNotFound \<and>
      fst (deleteNote (run empty_store ops) i u) = DeleteNotFound)"
proof (intro conjI impI)
  assume a: "store_inv st \<and> deleteNote st i owner = (DeleteSuccess, st') \<and>
      (\<forall>op \<in> set ops. \<not> allocates i op)"
  then have st': "st' = snd (storage_deleteNote st i)"
    by (auto simp: deleteNote_def split: option.splits if_splits)
  have gone: "storage_getNote st' i = None"
    by (simp add: st' getNote_deleteNote)
  have inv: "store_inv st'"
    using a by (simp add: st' store_inv_deleteNote)
  have later: "storage_getNote (run st' ops) i = None"
    using inv gone a by (simp add: absent_run)
  show "fst (getNote st' i) = None"
    using gone by (simp add: getNote_def)
  show "fst (getNote (run st' ops) i) = None"
    "fst (updateNote (run st' ops) now i u dto) = UpdateNotFound"
    "fst (deleteNote (run st' ops) i u) = DeleteNotFound"
    using absent_not_found [OF later] by simp_all
next
  assume a: "\<forall>op \<in> set ops. \<not> allocates i op"
  have "storage_getNote empty_store i = None"
    by (simp add: storage_getNote_def empty_store_def)
  then have never: "storage_getNote (run empty_store ops) i = None"
    using a by (simp add: absent_run store_inv_empty)
  show "fst (getNote (run empty_store ops) i) = None"
    "fst (updateNote (run empty_store ops) now i u dto) = UpdateNotFound"
    "fst (deleteNote (run empty_store ops) i u) = DeleteNotFound"
    using absent_not_found [OF never] by simp_all
qed

theorem deleted_is_absorbing_witness:
  "store_inv alice_store \<and>
   deleteNote alice_store [0x6E, 0x31] [0x61] = (DeleteSuccess, empty_store) \<and>
   \<not> allocates [0x6E, 0x31] (OpCreate [0x32] 10 [0x61] \<lparr>c_title = Some [0x41], c_body = None\<rparr>) \<and>
   \<not> allocates [0x6E, 0x31] (OpUpdate 11 [0x6E, 0x31] [0x61] \<lparr>u_title = Some [0x42], u_body = None\<rparr>) \<and>
   \<not> allocates [0x6E, 0x31] (OpDelete [0x6E, 0x31] [0x61]) \<and>
   fst (getNote empty_store [0x6E, 0x31]) = None \<and>
   fst (getNote
         (run empty_store
           [OpCreate [0x32] 10 [0x61] \<lparr>c_title = Some [0x41], c_body = None\<rparr>,
            OpUpdate 11 [0x6E, 0x31] [0x61] \<lparr>u_title = Some [0x42], u_body = None\<rparr>,
            OpDelete [0x6E, 0x31] [0x61]])
         [0x6E, 0x31]) = None \<and>
   fst (updateNote
         (run empty_store
           [OpCreate [0x32] 10 [0x61] \<lparr>c_title = Some [0x41], c_body = None\<rparr>,
            OpUpdate 11 [0x6E, 0x31] [0x61] \<lparr>u_title = Some [0x42], u_body = None\<rparr>,
            OpDelete [0x6E, 0x31] [0x61]])
         12 [0x6E, 0x31] [0x61] \<lparr>u_title = Some [0x43], u_body = None\<rparr>) = UpdateNotFound \<and>
   fst (deleteNote
         (run empty_store
           [OpCreate [0x32] 10 [0x61] \<lparr>c_title = Some [0x41], c_body = None\<rparr>,
            OpUpdate 11 [0x6E, 0x31] [0x61] \<lparr>u_title = Some [0x42], u_body = None\<rparr>,
            OpDelete [0x6E, 0x31] [0x61]])
         [0x6E, 0x31] [0x61]) = DeleteNotFound \<and>
   fst (updateNote (run empty_store [OpIssue [0x39] [0x61], OpList [0x61]])
         12 [0x78] [0x61] \<lparr>u_title = Some [0x43], u_body = None\<rparr>) = UpdateNotFound \<and>
   fst (deleteNote (run empty_store [OpIssue [0x39] [0x61], OpList [0x61]])
         [0x78] [0x61]) = DeleteNotFound"
proof -
  have del: "deleteNote alice_store [0x6E, 0x31] [0x61] = (DeleteSuccess, empty_store)"
    by (simp add: deleteNote_def alice_get alice_owner storage_deleteNote_def map_delete_def)
      (simp add: alice_store_def empty_store_def)
  have na: "\<forall>op \<in> set [OpCreate [0x32] 10 [0x61] \<lparr>c_title = Some [0x41], c_body = None\<rparr>,
            OpUpdate 11 [0x6E, 0x31] [0x61] \<lparr>u_title = Some [0x42], u_body = None\<rparr>,
            OpDelete [0x6E, 0x31] [0x61]]. \<not> allocates [0x6E, 0x31] op"
    by (simp add: ascii_def)
  have nb: "\<forall>op \<in> set [OpIssue [0x39] [0x61], OpList [0x61]]. \<not> allocates [0x78] op"
    by simp
  have a: "fst (getNote empty_store [0x6E, 0x31]) = None \<and>
      fst (getNote
         (run empty_store
           [OpCreate [0x32] 10 [0x61] \<lparr>c_title = Some [0x41], c_body = None\<rparr>,
            OpUpdate 11 [0x6E, 0x31] [0x61] \<lparr>u_title = Some [0x42], u_body = None\<rparr>,
            OpDelete [0x6E, 0x31] [0x61]])
         [0x6E, 0x31]) = None \<and>
      fst (updateNote
         (run empty_store
           [OpCreate [0x32] 10 [0x61] \<lparr>c_title = Some [0x41], c_body = None\<rparr>,
            OpUpdate 11 [0x6E, 0x31] [0x61] \<lparr>u_title = Some [0x42], u_body = None\<rparr>,
            OpDelete [0x6E, 0x31] [0x61]])
         12 [0x6E, 0x31] [0x61] \<lparr>u_title = Some [0x43], u_body = None\<rparr>) = UpdateNotFound \<and>
      fst (deleteNote
         (run empty_store
           [OpCreate [0x32] 10 [0x61] \<lparr>c_title = Some [0x41], c_body = None\<rparr>,
            OpUpdate 11 [0x6E, 0x31] [0x61] \<lparr>u_title = Some [0x42], u_body = None\<rparr>,
            OpDelete [0x6E, 0x31] [0x61]])
         [0x6E, 0x31] [0x61]) = DeleteNotFound"
    using deleted_is_absorbing [of alice_store "[0x6E, 0x31]" "[0x61]" empty_store
        "[OpCreate [0x32] 10 [0x61] \<lparr>c_title = Some [0x41], c_body = None\<rparr>,
          OpUpdate 11 [0x6E, 0x31] [0x61] \<lparr>u_title = Some [0x42], u_body = None\<rparr>,
          OpDelete [0x6E, 0x31] [0x61]]"
        12 "[0x61]" "\<lparr>u_title = Some [0x43], u_body = None\<rparr>"]
      alice_inv del na
    by blast
  have b: "fst (updateNote (run empty_store [OpIssue [0x39] [0x61], OpList [0x61]])
         12 [0x78] [0x61] \<lparr>u_title = Some [0x43], u_body = None\<rparr>) = UpdateNotFound \<and>
      fst (deleteNote (run empty_store [OpIssue [0x39] [0x61], OpList [0x61]])
         [0x78] [0x61]) = DeleteNotFound"
    using deleted_is_absorbing [of alice_store "[0x78]" "[0x61]" empty_store
        "[OpIssue [0x39] [0x61], OpList [0x61]]"
        12 "[0x61]" "\<lparr>u_title = Some [0x43], u_body = None\<rparr>"] nb
    by blast
  have c: "\<not> allocates [0x6E, 0x31]
        (OpCreate [0x32] 10 [0x61] \<lparr>c_title = Some [0x41], c_body = None\<rparr>)"
    by (simp add: ascii_def)
  show ?thesis
    using a b c del alice_inv by simp
qed

section \<open>Listing\<close>

text \<open>
  C3. For every user and every store, \<open>getUserNotes\<close> returns exactly the
  notes of that user (as a multiset), in descending order of creation instant, and
  returns the store it was given. After three successful creations for one user on a
  reachable store, with unused pairwise different identifiers and strictly increasing
  creation instants, the three notes appear in the list newest first.
\<close>

theorem list_newest_first:
  "mset (fst (getUserNotes st u))
     = mset (filter (\<lambda>n. userId n = u) (map snd (notes' st))) \<and>
   sorted_wrt (\<lambda>a b. createdAt b \<le> createdAt a) (fst (getUserNotes st u)) \<and>
   snd (getUserNotes st u) = st \<and>
   (store_inv st \<and>
    createNote st uuid1 t1 u d1 = (CreateOk n1, st1) \<and>
    createNote st1 uuid2 t2 u d2 = (CreateOk n2, st2) \<and>
    createNote st2 uuid3 t3 u d3 = (CreateOk n3, st3) \<and>
    storage_getNote st (ascii ''note_'' @ uuid1) = None \<and>
    storage_getNote st (ascii ''note_'' @ uuid2) = None \<and>
    storage_getNote st (ascii ''note_'' @ uuid3) = None \<and>
    distinct [uuid1, uuid2, uuid3] \<and> t1 < t2 \<and> t2 < t3 \<longrightarrow>
    filter (\<lambda>n. id' n \<in> {id' n1, id' n2, id' n3}) (fst (getUserNotes st3 u)) = [n3, n2, n1])"
  using three_creates_newest_first [of st uuid1 t1 u d1 n1 st1 uuid2 t2 d2 n2 st2 uuid3 t3 d3 n3 st3]
  by (simp add: getUserNotes_def getNotesByUser_mset getNotesByUser_sorted)

theorem list_newest_first_witness:
  "store_inv (store_of [alice_note]) \<and>
   createNote (store_of [alice_note]) [0x31] 5 [0x61] \<lparr>c_title = Some [0x41], c_body = None\<rparr>
     = (CreateOk (note_A 5), store_of [alice_note, note_A 5]) \<and>
   createNote (store_of [alice_note, note_A 5]) [0x32] 6 [0x61]
       \<lparr>c_title = Some [0x42], c_body = None\<rparr>
     = (CreateOk (note_B 6), store_of [alice_note, note_A 5, note_B 6]) \<and>
   createNote (store_of [alice_note, note_A 5, note_B 6]) [0x33] 7 [0x61]
       \<lparr>c_title = Some [0x43], c_body = None\<rparr>
     = (CreateOk (note_C 7), store_of [alice_note, note_A 5, note_B 6, note_C 7]) \<and>
   storage_getNote (store_of [alice_note]) (ascii ''note_'' @ [0x31]) = None \<and>
   storage_getNote (store_of [alice_note]) (ascii ''note_'' @ [0x32]) = None \<and>
   storage_getNote (store_of [alice_note]) (ascii ''note_'' @ [0x33]) = None \<and>
   distinct [[0x31], [0x32], [0x33 :: 16 word]] \<and> (5 :: int) < 6 \<and> (6 :: int) < 7 \<and>
   filter (\<lambda>n. id' n \<in> {id' (note_A 5), id' (note_B 6), id' (note_C 7)})
     (fst (getUserNotes (store_of [alice_note, note_A 5, note_B 6, note_C 7]) [0x61]))
     = [note_C 7, note_B 6, note_A 5] \<and>
   fst (getUserNotes (store_of [alice_note, note_A 5, note_B 6, note_C 7]) [0x61])
     = [note_C 7, note_B 6, note_A 5, alice_note]"
proof -
  have ids: "id' alice_note = [0x6E, 0x31]" "id' (note_A 5) = ascii ''note_'' @ [0x31]"
    "id' (note_B 6) = ascii ''note_'' @ [0x32]"
    by (simp_all add: alice_note_def note_A_def note_B_def)
  have 1: "createNote (store_of [alice_note]) [0x31] 5 [0x61]
       \<lparr>c_title = Some [0x41], c_body = None\<rparr>
     = (CreateOk (note_A 5), store_of [alice_note, note_A 5])"
    using create_A [of "[alice_note]" 5] by (simp add: ids ascii_def)
  have 2: "createNote (store_of [alice_note, note_A 5]) [0x32] 6 [0x61]
       \<lparr>c_title = Some [0x42], c_body = None\<rparr>
     = (CreateOk (note_B 6), store_of [alice_note, note_A 5, note_B 6])"
    using create_B [of "[alice_note, note_A 5]" 6] by (simp add: ids ascii_def)
  have 3: "createNote (store_of [alice_note, note_A 5, note_B 6]) [0x33] 7 [0x61]
       \<lparr>c_title = Some [0x43], c_body = None\<rparr>
     = (CreateOk (note_C 7), store_of [alice_note, note_A 5, note_B 6, note_C 7])"
    using create_C [of "[alice_note, note_A 5, note_B 6]" 7] by (simp add: ids ascii_def)
  have fresh: "storage_getNote (store_of [alice_note]) (ascii ''note_'' @ [0x31]) = None"
    "storage_getNote (store_of [alice_note]) (ascii ''note_'' @ [0x32]) = None"
    "storage_getNote (store_of [alice_note]) (ascii ''note_'' @ [0x33]) = None"
    by (simp_all add: storage_getNote_def store_of_def ids ascii_def)
  have d: "distinct [[0x31], [0x32], [0x33 :: 16 word]]"
    by simp
  have order: "filter (\<lambda>n. id' n \<in> {id' (note_A 5), id' (note_B 6), id' (note_C 7)})
     (fst (getUserNotes (store_of [alice_note, note_A 5, note_B 6, note_C 7]) [0x61]))
     = [note_C 7, note_B 6, note_A 5]"
    using list_newest_first [of "store_of [alice_note]" "[0x61]"
        "[0x31]" 5 "\<lparr>c_title = Some [0x41], c_body = None\<rparr>" "note_A 5"
        "store_of [alice_note, note_A 5]"
        "[0x32]" 6 "\<lparr>c_title = Some [0x42], c_body = None\<rparr>" "note_B 6"
        "store_of [alice_note, note_A 5, note_B 6]"
        "[0x33]" 7 "\<lparr>c_title = Some [0x43], c_body = None\<rparr>" "note_C 7"
        "store_of [alice_note, note_A 5, note_B 6, note_C 7]"]
      store_of_inv_alice 1 2 3 fresh d
    by simp
  have full: "fst (getUserNotes (store_of [alice_note, note_A 5, note_B 6, note_C 7]) [0x61])
     = [note_C 7, note_B 6, note_A 5, alice_note]"
    by (simp add: getUserNotes_def storage_getNotesByUser_def array_sort_def store_of_def
        note_A_def note_B_def note_C_def alice_note_def)
  show ?thesis
    using store_of_inv_alice 1 2 3 fresh order full by simp
qed

text \<open>
  The order of the list is decided by the millisecond instants alone. Three notes
  created in sequence within one millisecond come back in insertion order, oldest
  first, which is not the reverse creation order.
\<close>

theorem list_ties_oldest_first:
  "createNote (store_of []) [0x31] 5 [0x61] \<lparr>c_title = Some [0x41], c_body = None\<rparr>
     = (CreateOk (note_A 5), store_of [note_A 5]) \<and>
   createNote (store_of [note_A 5]) [0x32] 5 [0x61] \<lparr>c_title = Some [0x42], c_body = None\<rparr>
     = (CreateOk (note_B 5), store_of [note_A 5, note_B 5]) \<and>
   createNote (store_of [note_A 5, note_B 5]) [0x33] 5 [0x61]
       \<lparr>c_title = Some [0x43], c_body = None\<rparr>
     = (CreateOk (note_C 5), store_of [note_A 5, note_B 5, note_C 5]) \<and>
   fst (getUserNotes (store_of [note_A 5, note_B 5, note_C 5]) [0x61])
     = [note_A 5, note_B 5, note_C 5] \<and>
   fst (getUserNotes (store_of [note_A 5, note_B 5, note_C 5]) [0x61])
     \<noteq> [note_C 5, note_B 5, note_A 5]"
proof -
  have 1: "createNote (store_of []) [0x31] 5 [0x61] \<lparr>c_title = Some [0x41], c_body = None\<rparr>
     = (CreateOk (note_A 5), store_of [note_A 5])"
    using create_A [of "[]" 5] by simp
  have 2: "createNote (store_of [note_A 5]) [0x32] 5 [0x61]
       \<lparr>c_title = Some [0x42], c_body = None\<rparr>
     = (CreateOk (note_B 5), store_of [note_A 5, note_B 5])"
    using create_B [of "[note_A 5]" 5] by (simp add: note_A_def ascii_def)
  have 3: "createNote (store_of [note_A 5, note_B 5]) [0x33] 5 [0x61]
       \<lparr>c_title = Some [0x43], c_body = None\<rparr>
     = (CreateOk (note_C 5), store_of [note_A 5, note_B 5, note_C 5])"
    using create_C [of "[note_A 5, note_B 5]" 5] by (simp add: note_A_def note_B_def ascii_def)
  have 4: "fst (getUserNotes (store_of [note_A 5, note_B 5, note_C 5]) [0x61])
     = [note_A 5, note_B 5, note_C 5]"
    by (simp add: getUserNotes_def storage_getNotesByUser_def array_sort_def store_of_def
        note_A_def note_B_def note_C_def)
  have 5: "[note_A 5, note_B 5, note_C 5] \<noteq> [note_C 5, note_B 5, note_A 5]"
    by (simp add: note_A_def note_C_def)
  show ?thesis
    using 1 2 3 4 5 by simp
qed

end
